theory Spec2Isabelle
  imports Main "HOL-Library.AList" "HOL-Library.Word"
begin

section \<open>Python values and exceptions\<close>

text \<open>
  Every value the program handles comes out of a JSON document (the catalog, the API
  responses, the mapping file) or out of a form field, so a value is \<open>None\<close>, a boolean,
  an integer, a string, a list or a dictionary with string keys. Floating point numbers
  are left out. A dictionary is an association list: insertion order is kept, a lookup
  takes the first pair of a key, and an update overwrites in place or appends.
\<close>

datatype pyval =
    PNone
  | PBool bool
  | PInt int
  | PStr string
  | PList "pyval list"
  | PDict "(string \<times> pyval) list"

text \<open>
  The exception classes that the program's \<open>except\<close> clauses tell apart, and
  \<open>OtherException\<close> for any other subclass of \<open>Exception\<close>. \<open>RequestException\<close> is the one of the \<open>requests\<close>
  library, \<open>ConnectionError\<close> the builtin one.
\<close>

datatype exn =
    ValueError
  | TypeError
  | AttributeError
  | JSONDecodeError
  | UnicodeDecodeError
  | BinasciiError
  | IOError
  | ConnectionError
  | RequestException
  | OtherException

text \<open>\<open>isinstance\<close> tests, following the class hierarchy: \<open>IOError\<close> is \<open>OSError\<close>, which
  the builtin \<open>ConnectionError\<close> and \<open>requests\<close>' \<open>RequestException\<close> both extend.\<close>

definition is_IOError :: "exn \<Rightarrow> bool" where
  "is_IOError e = (e = IOError \<or> e = ConnectionError \<or> e = RequestException)"

definition is_JSONDecodeError :: "exn \<Rightarrow> bool" where
  "is_JSONDecodeError e = (e = JSONDecodeError)"

definition is_RequestException :: "exn \<Rightarrow> bool" where
  "is_RequestException e = (e = RequestException)"

definition is_ConnectionError :: "exn \<Rightarrow> bool" where
  "is_ConnectionError e = (e = ConnectionError)"

definition is_BinasciiError :: "exn \<Rightarrow> bool" where
  "is_BinasciiError e = (e = BinasciiError)"

text \<open>Truth value of an object, as \<open>if x:\<close> and \<open>not x\<close> test it.\<close>

fun truthy :: "pyval \<Rightarrow> bool" where
  "truthy PNone = False"
| "truthy (PBool b) = b"
| "truthy (PInt i) = (i \<noteq> 0)"
| "truthy (PStr s) = (s \<noteq> [])"
| "truthy (PList xs) = (xs \<noteq> [])"
| "truthy (PDict kvs) = (kvs \<noteq> [])"

subsection \<open>\<open>str\<close> and \<open>repr\<close>\<close>

fun dec_nat :: "nat \<Rightarrow> string" where
  "dec_nat n =
     (if n < 10 then [''0123456789'' ! n]
      else dec_nat (n div 10) @ [''0123456789'' ! (n mod 10)])"

definition dec_int :: "int \<Rightarrow> string" where
  "dec_int i = (if i < 0 then CHR ''-'' # dec_nat (nat (- i)) else dec_nat (nat i))"

definition hex2 :: "nat \<Rightarrow> string" where
  "hex2 n = [''0123456789abcdef'' ! (n div 16), ''0123456789abcdef'' ! (n mod 16)]"

text \<open>\<open>repr\<close> of a string, characters being code points below 256: single quotes
  unless the string holds a single quote and no double quote; the quote and the
  backslash escaped; tab, newline and carriage return by letter; every other
  non-printable code point as \<open>\xNN\<close>.\<close>

definition repr_char :: "char \<Rightarrow> char \<Rightarrow> string" where
  "repr_char q c =
     (let n = (of_char c :: nat) in
      if c = q \<or> c = CHR 0x5C then [CHR 0x5C, c]
      else if n = 9 then [CHR 0x5C, CHR ''t'']
      else if n = 10 then [CHR 0x5C, CHR ''n'']
      else if n = 13 then [CHR 0x5C, CHR ''r'']
      else if n < 32 \<or> n = 127 \<or> (128 \<le> n \<and> n \<le> 160) \<or> n = 173
        then [CHR 0x5C, CHR ''x''] @ hex2 n
      else [c])"

definition repr_str :: "string \<Rightarrow> string" where
  "repr_str s =
     (let q = (if CHR 0x27 \<in> set s \<and> CHR 0x22 \<notin> set s then CHR 0x22 else CHR 0x27)
      in q # concat (map (repr_char q) s) @ [q])"

fun join :: "string \<Rightarrow> string list \<Rightarrow> string" where
  "join sep [] = []"
| "join sep [x] = x"
| "join sep (x # y # ys) = x @ sep @ join sep (y # ys)"

fun py_repr :: "pyval \<Rightarrow> string" where
  "py_repr PNone = ''None''"
| "py_repr (PBool b) = (if b then ''True'' else ''False'')"
| "py_repr (PInt i) = dec_int i"
| "py_repr (PStr s) = repr_str s"
| "py_repr (PList xs) = ''['' @ join '', '' (map py_repr xs) @ '']''"
| "py_repr (PDict kvs) =
     ''{'' @ join '', '' (map (\<lambda>(k, v). repr_str k @ '': '' @ py_repr v) kvs) @ ''}''"

text \<open>\<open>str(x)\<close>, which is also what an f-string field \<open>{x}\<close> inserts: a string is
  itself, everything else is its \<open>repr\<close>.\<close>

definition py_str :: "pyval \<Rightarrow> string" where
  "py_str v = (case v of PStr s \<Rightarrow> s | _ \<Rightarrow> py_repr v)"

subsection \<open>Container operations\<close>

text \<open>\<open>d.get(k)\<close> and \<open>d.get(k, default)\<close>: only a dictionary has the method.\<close>

definition py_get :: "pyval \<Rightarrow> string \<Rightarrow> pyval \<Rightarrow> exn + pyval" where
  "py_get d k dflt =
     (case d of
        PDict kvs \<Rightarrow> (case map_of kvs k of None \<Rightarrow> Inr dflt | Some v \<Rightarrow> Inr v)
      | _ \<Rightarrow> Inl AttributeError)"

fun is_sublist_str :: "string \<Rightarrow> string \<Rightarrow> bool" where
  "is_sublist_str k [] = (k = [])"
| "is_sublist_str k (c # cs) = (take (length k) (c # cs) = k \<or> is_sublist_str k cs)"

text \<open>\<open>k in x\<close> for a string \<open>k\<close>: a key of a dictionary, an element of a list, a
  substring of a string; any other right operand is not iterable.\<close>

definition py_contains :: "pyval \<Rightarrow> string \<Rightarrow> exn + bool" where
  "py_contains x k =
     (case x of
        PDict kvs \<Rightarrow> Inr (k \<in> set (map fst kvs))
      | PList xs \<Rightarrow> Inr (PStr k \<in> set xs)
      | PStr s \<Rightarrow> Inr (is_sublist_str k s)
      | _ \<Rightarrow> Inl TypeError)"

text \<open>\<open>x[k]\<close> for a string \<open>k\<close>: only a dictionary can be indexed by a string; a
  missing key is a \<open>KeyError\<close>, here \<open>OtherException\<close>.\<close>

definition py_getitem :: "pyval \<Rightarrow> string \<Rightarrow> exn + pyval" where
  "py_getitem x k =
     (case x of
        PDict kvs \<Rightarrow> (case map_of kvs k of None \<Rightarrow> Inl OtherException | Some v \<Rightarrow> Inr v)
      | _ \<Rightarrow> Inl TypeError)"

text \<open>\<open>x[k] = v\<close> for a string \<open>k\<close>.\<close>

definition py_setitem :: "pyval \<Rightarrow> string \<Rightarrow> pyval \<Rightarrow> exn + pyval" where
  "py_setitem x k v =
     (case x of
        PDict kvs \<Rightarrow> Inr (PDict (AList.update k v kvs))
      | _ \<Rightarrow> Inl TypeError)"

definition py_len :: "pyval \<Rightarrow> exn + nat" where
  "py_len x =
     (case x of
        PDict kvs \<Rightarrow> Inr (length kvs)
      | PList xs \<Rightarrow> Inr (length xs)
      | PStr s \<Rightarrow> Inr (length s)
      | _ \<Rightarrow> Inl TypeError)"

text \<open>The elements a \<open>for\<close> loop sees: the items of a list, the keys of a dictionary,
  the characters of a string.\<close>

definition py_iter :: "pyval \<Rightarrow> exn + pyval list" where
  "py_iter x =
     (case x of
        PList xs \<Rightarrow> Inr xs
      | PDict kvs \<Rightarrow> Inr (map (\<lambda>(k, v). PStr k) kvs)
      | PStr s \<Rightarrow> Inr (map (\<lambda>c. PStr [c]) s)
      | _ \<Rightarrow> Inl TypeError)"

section \<open>The mapping store (\<open>mapping_store.py\<close>)\<close>

text \<open>
  The backing file as the store's code can observe it: whether the path exists,
  whether opening it for reading or for writing succeeds, and what reading it gives.
  Reading gives bytes that are no text in the file's encoding (\<open>f.read()\<close> inside
  \<open>json.load\<close> raises \<open>UnicodeDecodeError\<close>), text that is no JSON document
  (\<open>JSONDecodeError\<close>), or a JSON document.
\<close>

datatype file_content = Undecodable | NotJson | Json pyval

record store =
  present :: bool
  readable :: bool
  writable :: bool
  content :: file_content

text \<open>The body of the \<open>try\<close> in \<open>load_mapping\<close>: \<open>open(path, 'r')\<close> and \<open>json.load\<close>.\<close>

definition read_json :: "store \<Rightarrow> exn + pyval" where
  "read_json s =
     (if \<not> readable s then Inl IOError
      else case content s of
             Undecodable \<Rightarrow> Inl UnicodeDecodeError
           | NotJson \<Rightarrow> Inl JSONDecodeError
           | Json v \<Rightarrow> Inr v)"

definition load_mapping :: "store \<Rightarrow> exn + pyval" where
  "load_mapping s =
     (if \<not> present s then Inr (PDict [])
      else case read_json s of
             Inr v \<Rightarrow> Inr v
           | Inl e \<Rightarrow>
               if is_JSONDecodeError e then Inr (PDict [])
               else if is_IOError e then Inr (PDict [])
               else Inl e)"

text \<open>\<open>save_mapping\<close>: a failure to open the file for writing is an \<open>IOError\<close>, caught
  and only printed. Every value of type \<open>pyval\<close> can be serialised.\<close>

definition save_mapping :: "store \<Rightarrow> pyval \<Rightarrow> store" where
  "save_mapping s mapping_data =
     (if writable s then s\<lparr>present := True, content := Json mapping_data\<rparr> else s)"

definition add_or_update_mapping :: "store \<Rightarrow> pyval \<Rightarrow> pyval \<Rightarrow> store \<times> exn option" where
  "add_or_update_mapping s lb_course_id riseup_step_id =
     (case load_mapping s of
        Inl e \<Rightarrow> (s, Some e)
      | Inr mapping \<Rightarrow>
          (case py_setitem mapping (py_str lb_course_id) riseup_step_id of
             Inl e \<Rightarrow> (s, Some e)
           | Inr mapping' \<Rightarrow> (save_mapping s mapping', None)))"

definition get_riseup_step_id :: "store \<Rightarrow> pyval \<Rightarrow> exn + pyval" where
  "get_riseup_step_id s lb_course_id =
     (case load_mapping s of
        Inl e \<Rightarrow> Inl e
      | Inr mapping \<Rightarrow> py_get mapping (py_str lb_course_id) PNone)"

text \<open>A store in working order: its file can be opened both ways and, when it exists
  and holds a JSON document, that document is a dictionary.\<close>

definition store_ok :: "store \<Rightarrow> bool" where
  "store_ok s =
     (readable s \<and> writable s \<and>
      (present s \<longrightarrow> (case content s of
                         Json (PDict kvs) \<Rightarrow> True
                       | Json _ \<Rightarrow> False
                       | NotJson \<Rightarrow> True
                       | Undecodable \<Rightarrow> False)))"

section \<open>External collaborators\<close>

text \<open>
  The two REST APIs are outside the program. Each call the program makes is recorded,
  in order, with its arguments, and what the call returns or raises is given by the
  environment as a function of the calls made so far and of the call itself.
\<close>

type_synonym byte = "8 word"

datatype call =
    ListCourses
  | RequestExport int string
  | CreateCourse pyval pyval pyval pyval pyval string "pyval list"
  | CreateModule pyval string string pyval
  | CreateStep pyval string string
  | UploadImage pyval "byte list" string
  | UploadBanner pyval "byte list" string
  | UploadScorm pyval "byte list" string
  | Download pyval

text \<open>
  \<open>respond\<close> answers the client methods of \<open>learningbox_client.py\<close> and
  \<open>riseup_client.py\<close> (\<open>_make_request\<close> and the uploads: the parsed JSON body, \<open>None\<close>
  for a 204, or the exception raised). \<open>fetch\<close> answers the HTTP download inside
  \<open>download_content\<close> together with the file name derived from the URL: the content and
  the name, or nothing when the download failed. \<open>config_valid\<close> says whether
  \<open>validate_config()\<close> passes, \<open>webhook_url\<close> is \<open>get_full_webhook_url()\<close>.
\<close>

record env =
  respond :: "call list \<Rightarrow> call \<Rightarrow> exn + pyval"
  fetch :: "call list \<Rightarrow> pyval \<Rightarrow> (byte list \<times> string) option"
  config_valid :: bool
  webhook_url :: string

definition api_call :: "env \<Rightarrow> call list \<Rightarrow> call \<Rightarrow> call list \<times> (exn + pyval)" where
  "api_call env log c = (log @ [c], respond env log c)"

subsection \<open>\<open>int(x)\<close>\<close>

text \<open>White space as \<open>str.strip()\<close> sees it, among the code points below 256.\<close>

definition is_space :: "char \<Rightarrow> bool" where
  "is_space c =
     (let n = (of_char c :: nat) in
      (9 \<le> n \<and> n \<le> 13) \<or> (28 \<le> n \<and> n \<le> 32) \<or> n = 133 \<or> n = 160)"

definition strip :: "string \<Rightarrow> string" where
  "strip s = rev (dropWhile is_space (rev (dropWhile is_space s)))"

definition digit_value :: "char \<Rightarrow> nat option" where
  "digit_value c =
     (let n = (of_char c :: nat) in if 48 \<le> n \<and> n \<le> 57 then Some (n - 48) else None)"

text \<open>Decimal digits, single underscores allowed between two digits. The flag says
  whether the previous character was a digit.\<close>

fun parse_digits :: "bool \<Rightarrow> nat \<Rightarrow> string \<Rightarrow> nat option" where
  "parse_digits prev acc [] = (if prev then Some acc else None)"
| "parse_digits prev acc (c # cs) =
     (if c = CHR ''_'' then (if prev then parse_digits False acc cs else None)
      else case digit_value c of
             None \<Rightarrow> None
           | Some d \<Rightarrow> parse_digits True (10 * acc + d) cs)"

definition int_of_string :: "string \<Rightarrow> exn + int" where
  "int_of_string s =
     (let t = strip s;
          neg = (t \<noteq> [] \<and> hd t = CHR ''-'');
          u = (if t \<noteq> [] \<and> (hd t = CHR ''-'' \<or> hd t = CHR ''+'') then tl t else t)
      in if u = [] \<or> hd u = CHR ''_'' then Inl ValueError
         else case parse_digits False 0 u of
                None \<Rightarrow> Inl ValueError
              | Some n \<Rightarrow> Inr (if neg then - int n else int n))"

text \<open>\<open>int(x)\<close>, without the interpreter's optional limit on the number of digits.\<close>

definition py_int :: "pyval \<Rightarrow> exn + int" where
  "py_int v =
     (case v of
        PInt i \<Rightarrow> Inr i
      | PBool b \<Rightarrow> Inr (if b then 1 else 0)
      | PStr s \<Rightarrow> int_of_string s
      | _ \<Rightarrow> Inl TypeError)"

subsection \<open>\<open>base64.b64decode\<close>\<close>

definition b64_alphabet :: string where
  "b64_alphabet = ''ABCDEFGHIJKLMNOPQRSTUVWXYZabcdefghijklmnopqrstuvwxyz0123456789+/''"

fun index_of :: "'a \<Rightarrow> 'a list \<Rightarrow> nat option" where
  "index_of x [] = None"
| "index_of x (y # ys) = (if x = y then Some 0 else map_option Suc (index_of x ys))"

definition b64_value :: "char \<Rightarrow> nat option" where
  "b64_value c = index_of c b64_alphabet"

text \<open>
  \<open>binascii.a2b_base64\<close> in its default, non-strict mode, as \<open>b64decode\<close> calls it
  (\<open>validate=False\<close>), following the decoder of CPython 3.11. The arguments are the decoder's variables: the position in the
  current group of four, the bits left over, the count of pad characters seen, and the
  output so far (in reverse). A character outside the alphabet is skipped. A pad
  character ends the decoding once the group is complete with it. Input that ends
  inside a group is rejected.
\<close>

fun a2b_base64 :: "nat \<Rightarrow> nat \<Rightarrow> nat \<Rightarrow> byte list \<Rightarrow> string \<Rightarrow> exn + byte list" where
  "a2b_base64 quad_pos leftchar pads out [] =
     (if quad_pos \<noteq> 0 then Inl BinasciiError else Inr (rev out))"
| "a2b_base64 quad_pos leftchar pads out (c # cs) =
     (if c = CHR ''='' then
        (if quad_pos \<ge> 2 \<and> quad_pos + (pads + 1) \<ge> 4 then Inr (rev out)
         else a2b_base64 quad_pos leftchar (if quad_pos \<ge> 2 then pads + 1 else pads) out cs)
      else case b64_value c of
             None \<Rightarrow> a2b_base64 quad_pos leftchar pads out cs
           | Some v \<Rightarrow>
               if quad_pos = 0 then a2b_base64 1 v 0 out cs
               else if quad_pos = 1 then
                 a2b_base64 2 (v mod 16) 0 (of_nat (leftchar * 4 + v div 16) # out) cs
               else if quad_pos = 2 then
                 a2b_base64 3 (v mod 4) 0 (of_nat (leftchar * 16 + v div 4) # out) cs
               else a2b_base64 0 0 0 (of_nat (leftchar * 64 + v) # out) cs)"

text \<open>\<open>base64.b64decode(s)\<close> of a string: \<open>s.encode('ascii')\<close> first, which is a plain
  \<open>ValueError\<close> when a character is not ASCII; then the decoder.\<close>

definition b64decode :: "string \<Rightarrow> exn + byte list" where
  "b64decode s =
     (if \<exists>c \<in> set s. (of_char c :: nat) \<ge> 128 then Inl ValueError
      else a2b_base64 0 0 0 [] s)"




section \<open>The sync orchestrator (\<open>sync_courses.py\<close>)\<close>

text \<open>\<open>LearningBoxClient.get_catalog\<close>.\<close>

definition get_catalog :: "env \<Rightarrow> call list \<Rightarrow> call list \<times> (exn + pyval)" where
  "get_catalog env log =
     (case api_call env log ListCourses of
        (log1, Inl e) \<Rightarrow> (log1, Inl e)
      | (log1, Inr response_data) \<Rightarrow>
          if \<not> truthy response_data then (log1, Inr (PList []))
          else case py_get response_data ''status'' PNone of
                 Inl e \<Rightarrow> (log1, Inl e)
               | Inr status \<Rightarrow>
                   if status = PStr ''ok'' then
                     (case py_get response_data ''modules'' (PList []) of
                        Inl e \<Rightarrow> (log1, Inl e)
                      | Inr courses \<Rightarrow>
                          (case py_len courses of
                             Inl e \<Rightarrow> (log1, Inl e)
                           | Inr n \<Rightarrow> (log1, Inr courses)))
                   else (log1, Inr (PList [])))"

text \<open>\<open>LearningBoxClient.request_scorm_export\<close>: the payload, with \<open>int(course_id)\<close>,
  is built before the \<open>try\<close>; the \<open>try\<close> catches \<open>RequestException\<close> only and then
  returns \<open>None\<close>.\<close>

definition request_scorm_export ::
    "env \<Rightarrow> call list \<Rightarrow> pyval \<Rightarrow> string \<Rightarrow> call list \<times> (exn + pyval)" where
  "request_scorm_export env log course_id url =
     (case py_int course_id of
        Inl e \<Rightarrow> (log, Inl e)
      | Inr n \<Rightarrow>
          (case api_call env log (RequestExport n url) of
             (log1, Inr response_data) \<Rightarrow> (log1, Inr response_data)
           | (log1, Inl e) \<Rightarrow>
               if is_RequestException e then (log1, Inr PNone) else (log1, Inl e)))"

text \<open>\<open>download_content\<close>: nothing is fetched for a falsy URL; every exception of the
  download is caught inside and gives \<open>(None, None)\<close>.\<close>

definition download_content ::
    "env \<Rightarrow> call list \<Rightarrow> pyval \<Rightarrow> call list \<times> (byte list \<times> string) option" where
  "download_content env log url =
     (if \<not> truthy url then (log, None) else (log @ [Download url], fetch env log url))"

text \<open>The image and the banner: uploaded when both the content and the file name are
  non-empty; whatever the upload raises is caught and only printed.\<close>

definition upload_if_downloaded ::
    "env \<Rightarrow> call list \<Rightarrow> (byte list \<Rightarrow> string \<Rightarrow> call) \<Rightarrow> (byte list \<times> string) option \<Rightarrow> call list" where
  "upload_if_downloaded env log mk d =
     (case d of
        None \<Rightarrow> log
      | Some (data, filename) \<Rightarrow>
          if data \<noteq> [] \<and> filename \<noteq> [] then fst (api_call env log (mk data filename))
          else log)"

text \<open>What follows each creation call: \<open>if not r or 'id' not in r: return None\<close>, then
  \<open>r['id']\<close>. The result is an exception, \<open>None\<close> for the early return, or the id.\<close>

definition created_id :: "exn + pyval \<Rightarrow> exn + pyval option" where
  "created_id r =
     (case r of
        Inl e \<Rightarrow> Inl e
      | Inr v \<Rightarrow>
          if \<not> truthy v then Inr None
          else case py_contains v ''id'' of
                 Inl e \<Rightarrow> Inl e
               | Inr False \<Rightarrow> Inr None
               | Inr True \<Rightarrow> (case py_getitem v ''id'' of Inl e \<Rightarrow> Inl e | Inr i \<Rightarrow> Inr (Some i)))"

text \<open>The list comprehension over the tags: \<open>tag.get('name')\<close> for each tag, kept when
  truthy.\<close>

fun tag_names :: "pyval list \<Rightarrow> exn + pyval list" where
  "tag_names [] = Inr []"
| "tag_names (t # ts) =
     (case py_get t ''name'' PNone of
        Inl e \<Rightarrow> Inl e
      | Inr n \<Rightarrow>
          (case tag_names ts of
             Inl e \<Rightarrow> Inl e
           | Inr ns \<Rightarrow> Inr (if truthy n then n # ns else ns)))"

record course_fields =
  lb_id :: pyval
  lb_title :: pyval
  lb_desc :: pyval
  lb_short_desc :: pyval
  lb_duration :: pyval
  lb_reference :: pyval
  lb_image_url :: pyval
  lb_banner_url :: pyval
  lb_keywords :: "pyval list"

definition dict_get :: "(string \<times> pyval) list \<Rightarrow> string \<Rightarrow> pyval \<Rightarrow> pyval" where
  "dict_get kvs k dflt = (case map_of kvs k of None \<Rightarrow> dflt | Some v \<Rightarrow> v)"

text \<open>The statements of \<open>sync_course_structure\<close> that come before its \<open>try\<close>: the
  \<open>.get\<close> calls on the descriptor and the comprehension over its tags.\<close>

definition read_course_fields :: "pyval \<Rightarrow> exn + course_fields" where
  "read_course_fields lb_course =
     (case lb_course of
        PDict kvs \<Rightarrow>
          (let i = dict_get kvs ''id'' PNone;
               code = dict_get kvs ''code'' (PStr (''LB_'' @ py_str i))
           in case py_iter (dict_get kvs ''tags'' (PList [])) of
                Inl e \<Rightarrow> Inl e
              | Inr lb_tags \<Rightarrow>
                  (case tag_names lb_tags of
                     Inl e \<Rightarrow> Inl e
                   | Inr names \<Rightarrow>
                       Inr \<lparr>lb_id = i,
                            lb_title = dict_get kvs ''name'' (PStr (''LearningBox Course '' @ py_str i)),
                            lb_desc = dict_get kvs ''description'' (PStr ''''),
                            lb_short_desc = dict_get kvs ''short_description'' (PStr ''''),
                            lb_duration = dict_get kvs ''duration'' (PInt 0),
                            lb_reference = code,
                            lb_image_url = dict_get kvs ''image'' PNone,
                            lb_banner_url = dict_get kvs ''banner'' PNone,
                            lb_keywords = names\<rparr>))
      | _ \<Rightarrow> Inl AttributeError)"

text \<open>The body of the \<open>try\<close> of \<open>sync_course_structure\<close>: course, image, banner,
  module, step. \<open>Inr PNone\<close> is \<open>return None\<close>.\<close>

definition build_structure :: "env \<Rightarrow> call list \<Rightarrow> course_fields \<Rightarrow> call list \<times> (exn + pyval)" where
  "build_structure env log f =
     (case api_call env log
             (CreateCourse (lb_title f) (lb_desc f) (lb_short_desc f) (lb_reference f)
                (lb_duration f) ''fr-FR'' (lb_keywords f)) of
        (log1, riseup_course) \<Rightarrow>
     (case created_id riseup_course of
        Inl e \<Rightarrow> (log1, Inl e)
      | Inr None \<Rightarrow> (log1, Inr PNone)
      | Inr (Some riseup_course_id) \<Rightarrow>
     (case download_content env log1 (lb_image_url f) of
        (log2, image_dl) \<Rightarrow>
     (let log3 = upload_if_downloaded env log2 (UploadImage riseup_course_id) image_dl in
      case download_content env log3 (lb_banner_url f) of
        (log4, banner_dl) \<Rightarrow>
     (let log5 = upload_if_downloaded env log4 (UploadBanner riseup_course_id) banner_dl in
      case api_call env log5
             (CreateModule riseup_course_id ''Module 1'' (py_str (lb_reference f) @ ''_M1'')
                (lb_duration f)) of
        (log6, riseup_module) \<Rightarrow>
     (case created_id riseup_module of
        Inl e \<Rightarrow> (log6, Inl e)
      | Inr None \<Rightarrow> (log6, Inr PNone)
      | Inr (Some riseup_module_id) \<Rightarrow>
     (case api_call env log6
             (CreateStep riseup_module_id ''Contenu'' (py_str (lb_reference f) @ ''_M1_S1'')) of
        (log7, riseup_step) \<Rightarrow>
     (case created_id riseup_step of
        Inl e \<Rightarrow> (log7, Inl e)
      | Inr None \<Rightarrow> (log7, Inr PNone)
      | Inr (Some riseup_step_id) \<Rightarrow> (log7, Inr riseup_step_id)))))))))"

text \<open>\<open>sync_course_structure\<close>: an exception of the statements before the \<open>try\<close>
  leaves the function; inside the \<open>try\<close>, both handlers return \<open>None\<close>.\<close>

definition sync_course_structure :: "env \<Rightarrow> call list \<Rightarrow> pyval \<Rightarrow> call list \<times> (exn + pyval)" where
  "sync_course_structure env log lb_course =
     (case read_course_fields lb_course of
        Inl e \<Rightarrow> (log, Inl e)
      | Inr f \<Rightarrow>
          (case build_structure env log f of
             (log1, Inl e) \<Rightarrow> (log1, Inr PNone)
           | (log1, Inr v) \<Rightarrow> (log1, Inr v)))"

record run_state =
  store :: store
  calls :: "call list"
  success_count :: nat
  fail_count :: nat
  skip_count :: nat

text \<open>The body of the \<open>for\<close> loop of \<open>main\<close> for one descriptor. The loop has no
  \<open>try\<close> of its own: the second component is the exception that leaves it, if any.\<close>

definition process_course :: "env \<Rightarrow> pyval \<Rightarrow> run_state \<Rightarrow> pyval \<Rightarrow> run_state \<times> exn option" where
  "process_course env existing_mapping st lb_course =
     (case py_get lb_course ''id'' PNone of
        Inl e \<Rightarrow> (st, Some e)
      | Inr i \<Rightarrow>
          if \<not> truthy i then (st\<lparr>fail_count := fail_count st + 1\<rparr>, None)
          else case py_contains existing_mapping (py_str i) of
                 Inl e \<Rightarrow> (st, Some e)
               | Inr True \<Rightarrow> (st\<lparr>skip_count := skip_count st + 1\<rparr>, None)
               | Inr False \<Rightarrow>
                   (case sync_course_structure env (calls st) lb_course of
                      (log1, Inl e) \<Rightarrow> (st\<lparr>calls := log1\<rparr>, Some e)
                    | (log1, Inr riseup_step_id) \<Rightarrow>
                        if truthy riseup_step_id then
                          (case add_or_update_mapping (store st) i riseup_step_id of
                             (s1, Some e) \<Rightarrow> (st\<lparr>store := s1, calls := log1\<rparr>, Some e)
                           | (s1, None) \<Rightarrow>
                               (case request_scorm_export env log1 i (webhook_url env) of
                                  (log2, Inl e) \<Rightarrow> (st\<lparr>store := s1, calls := log2\<rparr>, Some e)
                                | (log2, Inr export_result) \<Rightarrow>
                                    if export_result \<noteq> PNone then
                                      (st\<lparr>store := s1, calls := log2,
                                          success_count := success_count st + 1\<rparr>, None)
                                    else
                                      (st\<lparr>store := s1, calls := log2,
                                          fail_count := fail_count st + 1\<rparr>, None)))
                        else (st\<lparr>calls := log1, fail_count := fail_count st + 1\<rparr>, None)))"

fun main_loop :: "env \<Rightarrow> pyval \<Rightarrow> run_state \<Rightarrow> pyval list \<Rightarrow> run_state \<times> exn option" where
  "main_loop env existing_mapping st [] = (st, None)"
| "main_loop env existing_mapping st (lb_course # rest) =
     (case process_course env existing_mapping st lb_course of
        (st1, Some e) \<Rightarrow> (st1, Some e)
      | (st1, None) \<Rightarrow> main_loop env existing_mapping st1 rest)"

text \<open>How a run of \<open>main\<close> ends when no exception leaves it: the initialisation
  failed, the catalog was empty, or the loop ran and the tally (success, skipped,
  failed) was printed.\<close>

datatype outcome = InitFailed | NoCourses | Tally nat nat nat

definition main :: "env \<Rightarrow> store \<Rightarrow> run_state \<times> (exn + outcome)" where
  "main env s =
     (let st = \<lparr>store = s, calls = [], success_count = 0, fail_count = 0, skip_count = 0\<rparr> in
      if \<not> config_valid env then (st, Inr InitFailed)
      else case load_mapping s of
             Inl e \<Rightarrow> (st, Inl e)
           | Inr existing_mapping \<Rightarrow>
      (case py_len existing_mapping of
             Inl e \<Rightarrow> (st, Inl e)
           | Inr n \<Rightarrow>
      (case get_catalog env [] of
             (log1, Inl e) \<Rightarrow> (st\<lparr>calls := log1\<rparr>, Inl e)
           | (log1, Inr lb_catalog) \<Rightarrow>
               if \<not> truthy lb_catalog then (st\<lparr>calls := log1\<rparr>, Inr NoCourses)
               else case py_len lb_catalog of
                      Inl e \<Rightarrow> (st\<lparr>calls := log1\<rparr>, Inl e)
                    | Inr m \<Rightarrow>
               (case py_iter lb_catalog of
                      Inl e \<Rightarrow> (st\<lparr>calls := log1\<rparr>, Inl e)
                    | Inr courses \<Rightarrow>
                        (case main_loop env existing_mapping (st\<lparr>calls := log1\<rparr>) courses of
                           (st1, Some e) \<Rightarrow> (st1, Inl e)
                         | (st1, None) \<Rightarrow>
                             (st1, Inr (Tally (success_count st1) (skip_count st1)
                                          (fail_count st1))))))))"

section \<open>The webhook receiver (\<open>webhook_handler.py\<close>)\<close>

text \<open>
  The request is the form body as \<open>parse_qs\<close> returns it: a dictionary from field
  names to lists of values. The response is the status code with the \<open>status\<close> and
  \<open>message\<close> fields of the JSON body.
\<close>

type_synonym request = "(string \<times> string list) list"

record response =
  status_code :: nat
  status :: string
  message :: string

text \<open>The body of the handler's outer \<open>try\<close>.\<close>

definition webhook_body ::
    "env \<Rightarrow> store \<Rightarrow> call list \<Rightarrow> request \<Rightarrow> call list \<times> (exn + response)" where
  "webhook_body env s log parsed_data =
     (let lb_course_id_list = map_of parsed_data ''modules[0][id]'';
          scorm_zip_b64_list = map_of parsed_data ''modules[0][zip]''
      in if lb_course_id_list = None \<or> lb_course_id_list = Some []
            \<or> scorm_zip_b64_list = None \<or> scorm_zip_b64_list = Some [] then
           (log, Inr \<lparr>status_code = 400, status = ''error'',
                      message = ''Missing required data fields''\<rparr>)
         else
           (let lb_course_id = hd (the lb_course_id_list);
                scorm_zip_b64 = hd (the scorm_zip_b64_list)
            in case get_riseup_step_id s (PStr lb_course_id) of
                 Inl e \<Rightarrow> (log, Inl e)
               | Inr riseup_step_id \<Rightarrow>
                   if \<not> truthy riseup_step_id then
                     (log, Inr \<lparr>status_code = 200, status = ''acknowledged_error'',
                                message = ''Mapping not found''\<rparr>)
                   else case b64decode scorm_zip_b64 of
                          Inl e \<Rightarrow>
                            if is_BinasciiError e then
                              (log, Inr \<lparr>status_code = 400, status = ''error'',
                                         message = ''Invalid Base64 data''\<rparr>)
                            else (log, Inl e)
                        | Inr scorm_zip_bytes \<Rightarrow>
                            (case api_call env log
                                    (UploadScorm riseup_step_id scorm_zip_bytes
                                       (''lb_'' @ lb_course_id @ ''_scorm.zip'')) of
                               (log1, Inr upload_response) \<Rightarrow>
                                 (log1, Inr \<lparr>status_code = 200, status = ''success'',
                                             message = ''SCORM uploaded to RiseUp''\<rparr>)
                             | (log1, Inl e) \<Rightarrow>
                                 if is_RequestException e \<or> is_ConnectionError e then
                                   (log1, Inr \<lparr>status_code = 502, status = ''error'',
                                               message = ''Failed to upload SCORM to RiseUp''\<rparr>)
                                 else (log1, Inl e))))"

text \<open>\<open>handle_learningbox_webhook\<close>. The client is \<open>None\<close> when the configuration was
  invalid at start-up. Whatever leaves the \<open>try\<close> is answered with a 500.\<close>

definition handle_learningbox_webhook ::
    "env \<Rightarrow> store \<Rightarrow> call list \<Rightarrow> request \<Rightarrow> call list \<times> response" where
  "handle_learningbox_webhook env s log parsed_data =
     (if \<not> config_valid env then
        (log, \<lparr>status_code = 500, status = ''error'', message = ''Server configuration error''\<rparr>)
      else case webhook_body env s log parsed_data of
             (log1, Inr r) \<Rightarrow> (log1, r)
           | (log1, Inl e) \<Rightarrow>
               (log1, \<lparr>status_code = 500, status = ''error'',
                       message = ''Internal server error''\<rparr>))"

section \<open>Example inputs\<close>

text \<open>
  An environment in which the source catalog is the given list, each creation call of
  the target system answers with an id (course 10, module 20, step 30), the export
  request fails with a \<open>RequestException\<close>, and every other call answers with an empty
  body.
\<close>

definition demo_respond :: "pyval \<Rightarrow> call list \<Rightarrow> call \<Rightarrow> exn + pyval" where
  "demo_respond catalog log c =
     (case c of
        ListCourses \<Rightarrow> Inr (PDict [(''status'', PStr ''ok''), (''modules'', catalog)])
      | CreateCourse t d ob r du la ks \<Rightarrow> Inr (PDict [(''id'', PInt 10)])
      | CreateModule ci t r du \<Rightarrow> Inr (PDict [(''id'', PInt 20)])
      | CreateStep m t r \<Rightarrow> Inr (PDict [(''id'', PInt 30)])
      | RequestExport n u \<Rightarrow> Inl RequestException
      | _ \<Rightarrow> Inr PNone)"

definition demo_env :: "pyval \<Rightarrow> env" where
  "demo_env catalog =
     \<lparr>respond = demo_respond catalog, fetch = (\<lambda>log url. None), config_valid = True,
      webhook_url = ''https://sync.example/learningbox_webhook''\<rparr>"

definition empty_store :: store where
  "empty_store = \<lparr>present = False, readable = True, writable = True, content = NotJson\<rparr>"

definition store_of :: "pyval \<Rightarrow> store" where
  "store_of v = \<lparr>present = True, readable = True, writable = True, content = Json v\<rparr>"

definition start_state :: "store \<Rightarrow> run_state" where
  "start_state s = \<lparr>store = s, calls = [], success_count = 0, fail_count = 0, skip_count = 0\<rparr>"

section \<open>Properties of the mapping store\<close>

lemma py_str_PStr: "py_str (PStr s) = s"
  by (simp add: py_str_def)

lemma map_of_update_same: "map_of (AList.update k v kvs) k = Some v"
  by (simp add: update_conv')

lemma load_mapping_ok_dict:
  assumes "store_ok s"
  shows "\<exists>kvs. load_mapping s = Inr (PDict kvs)"
proof (cases "present s")
  case False
  then show ?thesis by (simp add: load_mapping_def)
next
  case True
  with assms show ?thesis
    by (auto simp: store_ok_def load_mapping_def read_json_def is_JSONDecodeError_def
        split: file_content.splits pyval.splits)
qed

lemma upsert_then_get:
  assumes "store_ok s"
  shows "add_or_update_mapping s a y = (s', r) \<Longrightarrow> py_str b = py_str a \<Longrightarrow>
         r = None \<and> get_riseup_step_id s' b = Inr y"
proof -
  assume step: "add_or_update_mapping s a y = (s', r)" and key: "py_str b = py_str a"
  from load_mapping_ok_dict [OF assms] obtain kvs where l: "load_mapping s = Inr (PDict kvs)"
    by blast
  from assms have w: "writable s" and rd: "readable s" by (simp_all add: store_ok_def)
  from step l w have s': "s' = s\<lparr>present := True, content := Json (PDict (AList.update (py_str a) y kvs))\<rparr>"
    and r: "r = None"
    by (simp_all add: add_or_update_mapping_def py_setitem_def save_mapping_def)
  from s' rd have "load_mapping s' = Inr (PDict (AList.update (py_str a) y kvs))"
    by (simp add: load_mapping_def read_json_def)
  then have "get_riseup_step_id s' b = Inr y"
    by (simp add: get_riseup_step_id_def py_get_def key map_of_update_same)
  with r show ?thesis by simp
qed

text \<open>
  Claim C1. On a store in working order, for every integer course id \<open>n\<close> and every step
  id \<open>y\<close>: after \<open>add_or_update_mapping(x, y)\<close>, \<open>get_riseup_step_id(x')\<close> returns \<open>y\<close>,
  whether \<open>x\<close> and \<open>x'\<close> are the integer \<open>n\<close> or its decimal string \<open>str(n)\<close>, in all four
  combinations; the update itself returns without an exception.
\<close>

theorem C1_upsert_get_normalized:
  assumes "store_ok s"
    and "x \<in> {PInt n, PStr (py_str (PInt n))}"
    and "x' \<in> {PInt n, PStr (py_str (PInt n))}"
  shows "snd (add_or_update_mapping s x y) = None \<and>
         get_riseup_step_id (fst (add_or_update_mapping s x y)) x' = Inr y"
proof -
  from assms(2,3) have "py_str x' = py_str x"
    by (auto simp: py_str_PStr)
  with upsert_then_get [OF assms(1), of x y "fst (add_or_update_mapping s x y)"
      "snd (add_or_update_mapping s x y)" x']
  show ?thesis by simp
qed

theorem C1_upsert_get_normalized_witness:
  "store_ok \<lparr>present = False, readable = True, writable = True, content = NotJson\<rparr> \<and>
   PInt 42 \<in> {PInt 42, PStr (py_str (PInt 42))} \<and>
   PStr (py_str (PInt 42)) \<in> {PInt 42, PStr (py_str (PInt 42))} \<and>
   snd (add_or_update_mapping
         \<lparr>present = False, readable = True, writable = True, content = NotJson\<rparr>
         (PInt 42) (PInt 999)) = None \<and>
   get_riseup_step_id
     (fst (add_or_update_mapping
            \<lparr>present = False, readable = True, writable = True, content = NotJson\<rparr>
            (PInt 42) (PInt 999)))
     (PStr (py_str (PInt 42))) = Inr (PInt 999)"
  using C1_upsert_get_normalized
    [of "\<lparr>present = False, readable = True, writable = True, content = NotJson\<rparr>"
        "PInt 42" 42 "PStr (py_str (PInt 42))" "PInt 999"]
  by (simp add: store_ok_def)

text \<open>What \<open>load_mapping\<close> returns in each state of the file that its code tells apart.\<close>

lemma load_mapping_absent: "\<not> present s \<Longrightarrow> load_mapping s = Inr (PDict [])"
  by (simp add: load_mapping_def)

lemma load_mapping_unreadable: "present s \<Longrightarrow> \<not> readable s \<Longrightarrow> load_mapping s = Inr (PDict [])"
  by (simp add: load_mapping_def read_json_def is_JSONDecodeError_def is_IOError_def)

lemma load_mapping_not_json:
  "present s \<Longrightarrow> readable s \<Longrightarrow> content s = NotJson \<Longrightarrow> load_mapping s = Inr (PDict [])"
  by (simp add: load_mapping_def read_json_def is_JSONDecodeError_def)

lemma load_mapping_json:
  "present s \<Longrightarrow> readable s \<Longrightarrow> content s = Json v \<Longrightarrow> load_mapping s = Inr v"
  by (simp add: load_mapping_def read_json_def)

text \<open>
  Claim C3. \<open>load_mapping\<close> is to return an empty mapping, and never raise, on a file
  that is absent, unreadable or of malformed content. On a file that exists and opens
  but whose bytes are no text in the file's encoding, \<open>f.read()\<close> inside \<open>json.load\<close>
  raises \<open>UnicodeDecodeError\<close>: a \<open>ValueError\<close> that is neither a \<open>JSONDecodeError\<close> nor
  an \<open>IOError\<close>, so neither \<open>except\<close> clause catches it and \<open>load_mapping\<close> raises.
\<close>

theorem C3_load_mapping_raises_on_undecodable:
  "load_mapping \<lparr>present = True, readable = True, writable = True, content = Undecodable\<rparr>
     = Inl UnicodeDecodeError"
  by (simp add: load_mapping_def read_json_def is_JSONDecodeError_def is_IOError_def)

text \<open>
  Claim C9. When the file exists, opens and parses as JSON, \<open>load_mapping\<close> returns
  the parsed value unchanged, whatever its shape (a list, a number, ...); and when
  \<open>load_mapping\<close> returns the empty mapping, the file is absent, or cannot be read, or
  is no JSON, or holds the empty JSON object itself.
\<close>

theorem C9_load_mapping_returns_any_json:
  "(present s \<and> readable s \<and> content s = Json v \<longrightarrow> load_mapping s = Inr v) \<and>
   (load_mapping s = Inr (PDict []) \<longrightarrow>
      \<not> present s \<or> \<not> readable s \<or> content s = NotJson \<or> content s = Json (PDict []))"
  by (cases "content s")
     (auto simp: load_mapping_def read_json_def is_JSONDecodeError_def is_IOError_def
           split: if_splits)

theorem C9_load_mapping_returns_any_json_witness:
  "load_mapping \<lparr>present = True, readable = True, writable = True,
                 content = Json (PList [PInt 1, PInt 2])\<rparr> = Inr (PList [PInt 1, PInt 2])"
  using C9_load_mapping_returns_any_json
    [of "\<lparr>present = True, readable = True, writable = True,
          content = Json (PList [PInt 1, PInt 2])\<rparr>" "PList [PInt 1, PInt 2]"]
  by simp

section \<open>Properties of the orchestrator\<close>

text \<open>
  Claim C10. A descriptor whose \<open>id\<close> field is present but falsy (\<open>0\<close>, the empty
  string, \<open>null\<close>, ...) takes the missing-id branch of the loop: the failed counter
  goes up by one and nothing else changes, so no call is made and no mapping is
  written.
\<close>

theorem C10_falsy_id_counts_as_failed:
  assumes "map_of kvs ''id'' = Some i" and "\<not> truthy i"
  shows "process_course env existing_mapping st (PDict kvs)
           = (st\<lparr>fail_count := fail_count st + 1\<rparr>, None)"
  using assms by (simp add: process_course_def py_get_def)

theorem C10_falsy_id_counts_as_failed_witness:
  "map_of [(''id'', PInt 0), (''name'', PStr ''Intro'')] ''id'' = Some (PInt 0) \<and>
   \<not> truthy (PInt 0) \<and>
   process_course (demo_env (PList [])) (PDict []) (start_state empty_store)
       (PDict [(''id'', PInt 0), (''name'', PStr ''Intro'')])
     = ((start_state empty_store)\<lparr>fail_count := 1\<rparr>, None)"
  using C10_falsy_id_counts_as_failed
    [of "[(''id'', PInt 0), (''name'', PStr ''Intro'')]" "PInt 0" "demo_env (PList [])" "PDict []"
        "start_state empty_store"]
  by (simp add: start_state_def)

text \<open>
  Claim C2. One failing course is not to abort the batch. The loop of \<open>main\<close> has no
  \<open>try\<close> of its own, and two statements that can raise lie outside the handlers of the
  functions it calls: the comprehension over the tags in \<open>sync_course_structure\<close>
  (before its \<open>try\<close>) and \<open>int(course_id)\<close> in \<open>request_scorm_export\<close> (before its
  \<open>try\<close>). With a first descriptor whose \<open>tags\<close> field is \<open>null\<close>, the run ends with a
  \<open>TypeError\<close> after the catalog request alone; with a first descriptor whose id is
  \<open>"abc"\<close>, it ends with a \<open>ValueError\<close>. In both runs the second descriptor is never
  processed and no tally is printed, while that second descriptor alone gives a tally.
\<close>

theorem C2_one_failing_course_aborts_the_run:
  "main (demo_env (PList [PDict [(''id'', PInt 1), (''tags'', PNone)], PDict [(''id'', PInt 2)]]))
        empty_store
     = ((start_state empty_store)\<lparr>calls := [ListCourses]\<rparr>, Inl TypeError) \<and>
   snd (main (demo_env (PList [PDict [(''id'', PStr ''abc'')], PDict [(''id'', PInt 2)]]))
          empty_store)
     = Inl ValueError \<and>
   snd (main (demo_env (PList [PDict [(''id'', PInt 2)]])) empty_store) = Inr (Tally 0 0 1)"
  by code_simp

text \<open>
  Claim C6, as stated, fails for a falsy id: the missing-id test comes first, so a
  descriptor with id \<open>0\<close> is counted as failed although \<open>"0"\<close> is a key of the snapshot.
\<close>

theorem C6_falsy_id_in_snapshot_not_skipped:
  "py_contains (PDict [(''0'', PInt 5)]) (py_str (PInt 0)) = Inr True \<and>
   process_course (demo_env (PList [])) (PDict [(''0'', PInt 5)]) (start_state empty_store)
       (PDict [(''id'', PInt 0)])
     = ((start_state empty_store)\<lparr>fail_count := 1\<rparr>, None)"
  by code_simp

text \<open>
  Claim C6, amended. For a descriptor whose id is truthy: when the string form of the
  id is a key of the snapshot, the skip counter goes up by one and nothing else changes
  (no call, no write); when it is not a key of the snapshot, the descriptor is not
  counted as skipped, whatever the store holds at that moment.
\<close>

theorem C6_skip_uses_snapshot_only:
  assumes "map_of kvs ''id'' = Some i" and "truthy i"
  shows "(py_str i \<in> fst ` set snap \<longrightarrow>
            process_course env (PDict snap) st (PDict kvs)
              = (st\<lparr>skip_count := skip_count st + 1\<rparr>, None)) \<and>
         (py_str i \<notin> fst ` set snap \<longrightarrow>
            skip_count (fst (process_course env (PDict snap) st (PDict kvs))) = skip_count st)"
  using assms
  by (auto simp: process_course_def py_get_def py_contains_def
           split: prod.splits sum.splits option.splits)

theorem C6_skip_uses_snapshot_only_witness:
  "process_course (demo_env (PList [])) (PDict [(''7'', PInt 30)]) (start_state empty_store)
       (PDict [(''id'', PInt 7)])
     = ((start_state empty_store)\<lparr>skip_count := 1\<rparr>, None) \<and>
   skip_count (fst (process_course (demo_env (PList [])) (PDict [])
       (start_state (store_of (PDict [(''7'', PInt 30)]))) (PDict [(''id'', PInt 7)]))) = 0"
  using C6_skip_uses_snapshot_only [of "[(''id'', PInt 7)]" "PInt 7" "[(''7'', PInt 30)]"
          "demo_env (PList [])" "start_state empty_store"]
        C6_skip_uses_snapshot_only [of "[(''id'', PInt 7)]" "PInt 7" "[]"
          "demo_env (PList [])" "start_state (store_of (PDict [(''7'', PInt 30)]))"]
  by (simp add: py_str_def dec_int_def start_state_def)

text \<open>A whole run on a catalog that lists course 1 twice, from an empty store: the
  first pass writes the mapping of course 1, and the second pass still does not skip it
  (both are counted as failed here only because the export request fails in this
  environment).\<close>

lemma same_run_write_never_skips:
  "snd (main (demo_env (PList [PDict [(''id'', PInt 1)], PDict [(''id'', PInt 1)]])) empty_store)
     = Inr (Tally 0 0 2) \<and>
   content (store (fst (main (demo_env (PList [PDict [(''id'', PInt 1)], PDict [(''id'', PInt 1)]]))
                          empty_store)))
     = Json (PDict [(''1'', PInt 30)])"
  by code_simp

lemma add_or_update_ok:
  assumes "store_ok s"
  shows "snd (add_or_update_mapping s a y) = None \<and>
         get_riseup_step_id (fst (add_or_update_mapping s a y)) a = Inr y"
  using upsert_then_get [OF assms, of a y "fst (add_or_update_mapping s a y)"
      "snd (add_or_update_mapping s a y)" a]
  by simp

text \<open>
  Claim C4. For a descriptor that passes the two tests of the loop and for which
  \<open>sync_course_structure\<close> returns a truthy step id, on a store in working order: the
  store after the descriptor is processed is the store as \<open>add_or_update_mapping\<close> left
  it, whatever the export request did afterwards (answered, failed, or raised), and it
  maps the course id to the step id; when the export request reports failure (\<open>None\<close>),
  the descriptor is counted as failed and the entry stays.
\<close>

theorem C4_mapping_persisted_before_export:
  assumes "py_get lb_course ''id'' PNone = Inr i" and "truthy i"
    and "py_contains existing_mapping (py_str i) = Inr False"
    and "sync_course_structure env (calls st) lb_course = (log1, Inr sid)" and "truthy sid"
    and "store_ok (store st)"
  shows "store (fst (process_course env existing_mapping st lb_course))
           = fst (add_or_update_mapping (store st) i sid) \<and>
         get_riseup_step_id (store (fst (process_course env existing_mapping st lb_course))) i
           = Inr sid \<and>
         (snd (request_scorm_export env log1 i (webhook_url env)) = Inr PNone \<longrightarrow>
            fail_count (fst (process_course env existing_mapping st lb_course))
              = fail_count st + 1 \<and>
            success_count (fst (process_course env existing_mapping st lb_course))
              = success_count st)"
proof -
  from add_or_update_ok [OF assms(6), of i sid]
  have up: "snd (add_or_update_mapping (store st) i sid) = None"
    and get: "get_riseup_step_id (fst (add_or_update_mapping (store st) i sid)) i = Inr sid"
    by simp_all
  obtain s1 where s1: "add_or_update_mapping (store st) i sid = (s1, None)"
    using up by (cases "add_or_update_mapping (store st) i sid") simp
  obtain log2 r where ex: "request_scorm_export env log1 i (webhook_url env) = (log2, r)"
    by (cases "request_scorm_export env log1 i (webhook_url env)")
  have st: "store (fst (process_course env existing_mapping st lb_course)) = s1"
    using assms(1-5) s1 ex
    by (cases r) (simp_all add: process_course_def)
  have cnt: "r = Inr PNone \<longrightarrow>
      fail_count (fst (process_course env existing_mapping st lb_course)) = fail_count st + 1 \<and>
      success_count (fst (process_course env existing_mapping st lb_course)) = success_count st"
    using assms(1-5) s1 ex by (simp add: process_course_def)
  from st get s1 cnt ex show ?thesis by simp
qed

theorem C4_mapping_persisted_before_export_witness:
  "store_ok (store (start_state empty_store)) \<and>
   sync_course_structure (demo_env (PList [])) (calls (start_state empty_store))
       (PDict [(''id'', PInt 42)])
     = ([CreateCourse (PStr ''LearningBox Course 42'') (PStr '''') (PStr '''') (PStr ''LB_42'')
           (PInt 0) ''fr-FR'' [],
         CreateModule (PInt 10) ''Module 1'' ''LB_42_M1'' (PInt 0),
         CreateStep (PInt 20) ''Contenu'' ''LB_42_M1_S1''], Inr (PInt 30)) \<and>
   get_riseup_step_id
     (store (fst (process_course (demo_env (PList [])) (PDict []) (start_state empty_store)
                    (PDict [(''id'', PInt 42)])))) (PInt 42) = Inr (PInt 30) \<and>
   fail_count (fst (process_course (demo_env (PList [])) (PDict []) (start_state empty_store)
                    (PDict [(''id'', PInt 42)]))) = 1"
proof -
  let ?env = "demo_env (PList [])" and ?st = "start_state empty_store"
  let ?d = "PDict [(''id'', PInt 42)]"
  let ?log = "[CreateCourse (PStr ''LearningBox Course 42'') (PStr '''') (PStr '''') (PStr ''LB_42'')
           (PInt 0) ''fr-FR'' [],
         CreateModule (PInt 10) ''Module 1'' ''LB_42_M1'' (PInt 0),
         CreateStep (PInt 20) ''Contenu'' ''LB_42_M1_S1'']"
  have h1: "py_get ?d ''id'' PNone = Inr (PInt 42)" by code_simp
  have h2: "truthy (PInt 42)" by simp
  have h3: "py_contains (PDict []) (py_str (PInt 42)) = Inr False" by code_simp
  have h4: "sync_course_structure ?env (calls ?st) ?d = (?log, Inr (PInt 30))" by code_simp
  have h5: "truthy (PInt 30)" by simp
  have h6: "store_ok (store ?st)" by code_simp
  have h7: "snd (request_scorm_export ?env ?log (PInt 42) (webhook_url ?env)) = Inr PNone"
    by code_simp
  have h8: "fail_count ?st = 0" by code_simp
  note c = C4_mapping_persisted_before_export [OF h1 h2 h3 h4 h5 h6]
  have g: "get_riseup_step_id
     (store (fst (process_course ?env (PDict []) ?st ?d))) (PInt 42) = Inr (PInt 30)"
    by (rule c [THEN conjunct2, THEN conjunct1])
  have f: "fail_count (fst (process_course ?env (PDict []) ?st ?d)) = 1"
    using c [THEN conjunct2, THEN conjunct2] h7 h8 by simp
  from h6 h4 g f show ?thesis by blast
qed

section \<open>Properties of the webhook receiver\<close>

text \<open>
  Claim C5. With the client configured, both fields present and a mapping that has no
  entry for the course id, the handler answers 200 with \<open>acknowledged_error\<close> and the log
  of calls is unchanged: no upload call is made, and the payload plays no part in the
  answer.
\<close>

theorem C5_unmapped_course_acknowledged:
  assumes "config_valid env"
    and "map_of parsed_data ''modules[0][id]'' = Some (cid # ids)"
    and "map_of parsed_data ''modules[0][zip]'' = Some (z # zs)"
    and "load_mapping s = Inr (PDict kvs)" and "map_of kvs cid = None"
  shows "handle_learningbox_webhook env s log parsed_data
           = (log, \<lparr>status_code = 200, status = ''acknowledged_error'',
                    message = ''Mapping not found''\<rparr>)"
  using assms
  by (simp add: handle_learningbox_webhook_def webhook_body_def get_riseup_step_id_def
      py_get_def py_str_def)

theorem C5_unmapped_course_acknowledged_witness:
  "config_valid (demo_env (PList [])) \<and>
   load_mapping empty_store = Inr (PDict []) \<and>
   handle_learningbox_webhook (demo_env (PList [])) empty_store []
       [(''modules[0][id]'', [''42'']), (''modules[0][zip]'', [''QUJD''])]
     = ([], \<lparr>status_code = 200, status = ''acknowledged_error'',
              message = ''Mapping not found''\<rparr>)"
proof -
  let ?req = "[(''modules[0][id]'', [''42'']), (''modules[0][zip]'', [''QUJD''])]"
  have h1: "config_valid (demo_env (PList []))" by code_simp
  have h2: "map_of ?req ''modules[0][id]'' = Some (''42'' # [])" by simp
  have h3: "map_of ?req ''modules[0][zip]'' = Some (''QUJD'' # [])" by simp
  have h4: "load_mapping empty_store = Inr (PDict [])" by code_simp
  have h5: "map_of ([] :: (string \<times> pyval) list) ''42'' = None" by simp
  from h1 h4 C5_unmapped_course_acknowledged [OF h1 h2 h3 h4 h5, of "[]"]
  show ?thesis by blast
qed

text \<open>
  Claim C7. With the client configured, both fields present, a truthy step id mapped
  to the course id and a payload that decodes: the handler makes exactly one call, the
  upload of the decoded bytes to that step id. When that call raises, the status is
  502 (for a \<open>RequestException\<close> or a \<open>ConnectionError\<close>) or 500 (for anything else);
  when it returns, the answer is 200 with the confirmation body.
\<close>

theorem C7_upload_once_to_mapped_step:
  assumes "config_valid env"
    and "map_of parsed_data ''modules[0][id]'' = Some (cid # ids)"
    and "map_of parsed_data ''modules[0][zip]'' = Some (z # zs)"
    and "get_riseup_step_id s (PStr cid) = Inr sid" and "truthy sid"
    and "b64decode z = Inr bytes"
  shows "fst (handle_learningbox_webhook env s log parsed_data)
           = log @ [UploadScorm sid bytes (''lb_'' @ cid @ ''_scorm.zip'')] \<and>
         (\<forall>e. respond env log (UploadScorm sid bytes (''lb_'' @ cid @ ''_scorm.zip'')) = Inl e \<longrightarrow>
            status_code (snd (handle_learningbox_webhook env s log parsed_data))
              = (if is_RequestException e \<or> is_ConnectionError e then 502 else 500)) \<and>
         (\<forall>v. respond env log (UploadScorm sid bytes (''lb_'' @ cid @ ''_scorm.zip'')) = Inr v \<longrightarrow>
            snd (handle_learningbox_webhook env s log parsed_data)
              = \<lparr>status_code = 200, status = ''success'',
                 message = ''SCORM uploaded to RiseUp''\<rparr>)"
  using assms
  by (cases "respond env log (UploadScorm sid bytes (''lb_'' @ cid @ ''_scorm.zip''))")
     (simp_all add: handle_learningbox_webhook_def webhook_body_def api_call_def)

theorem C7_upload_once_to_mapped_step_witness:
  "get_riseup_step_id (store_of (PDict [(''42'', PInt 999)])) (PStr ''42'') = Inr (PInt 999) \<and>
   b64decode ''QUJD'' = Inr [65, 66, 67] \<and>
   handle_learningbox_webhook (demo_env (PList [])) (store_of (PDict [(''42'', PInt 999)])) []
       [(''modules[0][id]'', [''42'']), (''modules[0][zip]'', [''QUJD''])]
     = ([UploadScorm (PInt 999) [65, 66, 67] ''lb_42_scorm.zip''],
        \<lparr>status_code = 200, status = ''success'', message = ''SCORM uploaded to RiseUp''\<rparr>) \<and>
   fst (handle_learningbox_webhook
          ((demo_env (PList []))\<lparr>respond := \<lambda>log c. Inl RequestException\<rparr>)
          (store_of (PDict [(''42'', PInt 999)])) []
          [(''modules[0][id]'', [''42'']), (''modules[0][zip]'', [''QUJD''])])
     = [UploadScorm (PInt 999) [65, 66, 67] ''lb_42_scorm.zip''] \<and>
   status_code (snd (handle_learningbox_webhook
          ((demo_env (PList []))\<lparr>respond := \<lambda>log c. Inl RequestException\<rparr>)
          (store_of (PDict [(''42'', PInt 999)])) []
          [(''modules[0][id]'', [''42'']), (''modules[0][zip]'', [''QUJD''])])) = 502"
proof -
  let ?req = "[(''modules[0][id]'', [''42'']), (''modules[0][zip]'', [''QUJD''])]"
  let ?s = "store_of (PDict [(''42'', PInt 999)])"
  let ?ok = "demo_env (PList [])"
  let ?ko = "(demo_env (PList []))\<lparr>respond := \<lambda>log c. Inl RequestException\<rparr>"
  let ?up = "UploadScorm (PInt 999) [65, 66, 67] (''lb_'' @ ''42'' @ ''_scorm.zip'')"
  have h1: "config_valid ?ok" by code_simp
  have h1': "config_valid ?ko" by code_simp
  have h2: "map_of ?req ''modules[0][id]'' = Some (''42'' # [])" by simp
  have h3: "map_of ?req ''modules[0][zip]'' = Some (''QUJD'' # [])" by simp
  have h4: "get_riseup_step_id ?s (PStr ''42'') = Inr (PInt 999)" by code_simp
  have h5: "truthy (PInt 999)" by simp
  have h6: "b64decode ''QUJD'' = Inr [65, 66, 67]" by code_simp
  have r1: "respond ?ok [] ?up = Inr PNone" by code_simp
  have r2: "respond ?ko [] ?up = Inl RequestException" by simp
  note a = C7_upload_once_to_mapped_step [OF h1 h2 h3 h4 h5 h6, of "[]"]
  note b = C7_upload_once_to_mapped_step [OF h1' h2 h3 h4 h5 h6, of "[]"]
  have a1: "fst (handle_learningbox_webhook ?ok ?s [] ?req) = [?up]"
    using a [THEN conjunct1] by simp
  have a2: "snd (handle_learningbox_webhook ?ok ?s [] ?req)
      = \<lparr>status_code = 200, status = ''success'', message = ''SCORM uploaded to RiseUp''\<rparr>"
    using a [THEN conjunct2, THEN conjunct2] r1 by blast
  have b1: "fst (handle_learningbox_webhook ?ko ?s [] ?req) = [?up]"
    using b [THEN conjunct1] by simp
  have b2: "status_code (snd (handle_learningbox_webhook ?ko ?s [] ?req)) = 502"
    using b [THEN conjunct2, THEN conjunct1] r2 by (simp add: is_RequestException_def)
  have a12: "handle_learningbox_webhook ?ok ?s [] ?req
      = ([?up], \<lparr>status_code = 200, status = ''success'', message = ''SCORM uploaded to RiseUp''\<rparr>)"
    using a1 a2 by (simp add: prod_eq_iff)
  from h4 h6 a12 b1 b2 show ?thesis by simp
qed

text \<open>The decoder skips every character that is neither in the alphabet nor the pad
  character.\<close>

lemma a2b_base64_skips_foreign:
  "c \<noteq> CHR ''='' \<Longrightarrow> b64_value c = None \<Longrightarrow>
   a2b_base64 quad_pos leftchar pads out (c # cs) = a2b_base64 quad_pos leftchar pads out cs"
  by simp


text \<open>A payload with a character that is not ASCII makes \<open>b64decode\<close> raise a plain
  \<open>ValueError\<close>, which the outer handler answers with a 500.\<close>

lemma webhook_non_ascii_payload:
  "handle_learningbox_webhook (demo_env (PList [])) (store_of (PDict [(''42'', PInt 999)])) []
       [(''modules[0][id]'', [''42'']), (''modules[0][zip]'', [[CHR 0xE9]])]
     = ([], \<lparr>status_code = 500, status = ''error'', message = ''Internal server error''\<rparr>)"
  by code_simp







end
